theory Spec2Isabelle
  imports Main "HOL-Library.Multiset"
begin

section \<open>The unscramble game (CIS17C_Project1/main.cpp)\<close>

text \<open>
  The program is a single C++ file. Its state is the four score variables of \<open>main\<close>, the
  word array with its count, the global achievement array, the standard input and the
  state of \<open>rand\<close>. The embedding passes that state explicitly.

  Conventions of the embedding:
  \<^item> \<open>int\<close> is the 32-bit two's-complement integer: a variable is a HOL integer, and
    an addition, subtraction or multiplication that can leave the range of \<open>int\<close> is
    followed by \<open>wrapInt\<close>, the wrap-around of the compiled program (the C++ standard
    leaves signed overflow undefined). The hint count is incremented only below 2 and the
    attempts are decremented only above 0, so these two cannot leave the range.
  \<^item> \<open>std::string\<close> is \<open>string\<close>; \<open>std::array\<close> is the list of its elements, so the
    size of an array is the length of the list. The program's word arrays all have
    \<open>maxWords\<close> elements.
  \<^item> An access outside an array, a division by zero, the read of a variable that was
    never assigned, a round that never ends and the end of the modelled input stop the run
    with a value of type \<open>fault\<close>.
  \<^item> \<open>rand()\<close> is a parameter \<open>r\<close>: the \<open>n\<close>-th call of the run returns \<open>r n\<close>, and the
    state keeps the number of calls made so far.
  \<^item> Text written to \<open>cout\<close> is not modelled, except for what \<open>useHint\<close> reveals.
\<close>

subsection \<open>Constants for game settings\<close>

definition maxWords :: nat where "maxWords = 200"
definition easyMinLength :: int where "easyMinLength = 3"
definition easyMaxLength :: int where "easyMaxLength = 5"
definition mediumMinLength :: int where "mediumMinLength = 6"
definition mediumMaxLength :: int where "mediumMaxLength = 8"
definition hardMinLength :: int where "hardMinLength = 9"
definition hintCost :: int where "hintCost = 1"
definition maxHintsPerWord :: int where "maxHintsPerWord = 2"
definition numAchievements :: nat where "numAchievements = 4"

subsection \<open>Faults\<close>

datatype fault =
    StoreOutOfBounds nat string  \<comment> \<open>this string was stored at this index, outside the array\<close>
  | ReadOutOfBounds nat          \<comment> \<open>an element was read at this index, outside the array\<close>
  | DivisionByZero               \<comment> \<open>\<open>rand() % 0\<close>\<close>
  | InputExhausted               \<comment> \<open>the program waits on \<open>cin\<close> and the modelled input has ended\<close>
  | UninitialisedRead            \<comment> \<open>an \<open>int\<close> that no extraction assigned is read\<close>
  | RoundNeverEnds               \<comment> \<open>the guessing loop repeats without end\<close>

subsection \<open>The type \<open>int\<close>\<close>

definition intMin :: int where "intMin = - 2147483648"
definition intMax :: int where "intMax = 2147483647"

definition inIntRange :: "int \<Rightarrow> bool" where
  "inIntRange x \<longleftrightarrow> intMin \<le> x \<and> x \<le> intMax"

text \<open>The value of an \<open>int\<close> expression whose exact result is \<open>x\<close>.\<close>

definition wrapInt :: "int \<Rightarrow> int" where
  "wrapInt x = (x + 2147483648) mod 4294967296 - 2147483648"

subsection \<open>Difficulty of a word\<close>

text \<open>
  The comparisons of the source are between \<open>word.length()\<close> (unsigned) and the \<open>int\<close>
  constants; the constants are positive, so the conversion does not change them.
\<close>

definition isEasyWord :: "string \<Rightarrow> bool" where
  "isEasyWord word \<longleftrightarrow> int (length word) \<ge> easyMinLength \<and> int (length word) \<le> easyMaxLength"

definition isMediumWord :: "string \<Rightarrow> bool" where
  "isMediumWord word \<longleftrightarrow> int (length word) \<ge> mediumMinLength \<and> int (length word) \<le> mediumMaxLength"

definition isHardWord :: "string \<Rightarrow> bool" where
  "isHardWord word \<longleftrightarrow> int (length word) \<ge> hardMinLength"

text \<open>
  The test of the loop of \<open>filterWordsByDifficulty\<close>. The element \<open>words[i]\<close> is read
  only when the difficulty is 1, 2 or 3, the left operand of each \<open>&&\<close>.
\<close>

definition matchesDifficulty :: "int \<Rightarrow> string \<Rightarrow> bool" where
  "matchesDifficulty difficulty word \<longleftrightarrow>
     (difficulty = 1 \<and> isEasyWord word) \<or>
     (difficulty = 2 \<and> isMediumWord word) \<or>
     (difficulty = 3 \<and> isHardWord word)"

function filterLoop ::
  "string list \<Rightarrow> nat \<Rightarrow> int \<Rightarrow> nat \<Rightarrow> string list \<Rightarrow> nat \<Rightarrow> fault + (string list \<times> nat)" where
  "filterLoop words wordCount difficulty i filteredWords filteredCount =
     (if i < wordCount then
        (if difficulty = 1 \<or> difficulty = 2 \<or> difficulty = 3 then
           (if length words \<le> i then Inl (ReadOutOfBounds i)
            else if matchesDifficulty difficulty (words ! i) then
              (if length filteredWords \<le> filteredCount then
                 Inl (StoreOutOfBounds filteredCount (words ! i))
               else filterLoop words wordCount difficulty (i + 1)
                      (filteredWords[filteredCount := words ! i]) (filteredCount + 1))
            else filterLoop words wordCount difficulty (i + 1) filteredWords filteredCount)
         else filterLoop words wordCount difficulty (i + 1) filteredWords filteredCount)
      else Inr (filteredWords, filteredCount))"
  by pat_completeness auto
termination
  by (relation "measure (\<lambda>(words, wordCount, difficulty, i, filteredWords, filteredCount). wordCount - i)")
     auto

declare filterLoop.simps [simp del]

definition filterWordsByDifficulty ::
  "string list \<Rightarrow> string list \<Rightarrow> nat \<Rightarrow> int \<Rightarrow> fault + (string list \<times> nat)" where
  "filterWordsByDifficulty filteredWords words wordCount difficulty =
     filterLoop words wordCount difficulty 0 filteredWords 0"

text \<open>
  Classification and filtering in the words of the specification: the band of a word
  from its length, none below 3 letters, and the words of a list that are in a band, in
  their order. The menu of the program numbers the bands 1, 2 and 3.
\<close>

datatype band = Easy | Medium | Hard

definition classify_spec :: "string \<Rightarrow> band option" where
  "classify_spec w =
     (if 3 \<le> length w \<and> length w \<le> 5 then Some Easy
      else if 6 \<le> length w \<and> length w \<le> 8 then Some Medium
      else if 9 \<le> length w then Some Hard
      else None)"

fun difficultyOf :: "band \<Rightarrow> int" where
  "difficultyOf Easy = 1"
| "difficultyOf Medium = 2"
| "difficultyOf Hard = 3"

definition filter_spec :: "string list \<Rightarrow> band \<Rightarrow> string list" where
  "filter_spec ws b = filter (\<lambda>w. classify_spec w = Some b) ws"

subsection \<open>Scrambling\<close>

text \<open>\<open>swap(anagram[j], anagram[k])\<close>.\<close>

definition swapAt :: "string \<Rightarrow> nat \<Rightarrow> nat \<Rightarrow> string" where
  "swapAt anagram j k = anagram[j := anagram ! k, k := anagram ! j]"

text \<open>
  The loop of \<open>scrambleWord\<close>; \<open>n\<close> counts the calls of \<open>rand\<close>. The index \<open>k\<close> is a
  remainder by the length, which is positive inside the loop.
\<close>

function scrambleLoop ::
  "(nat \<Rightarrow> nat) \<Rightarrow> string \<Rightarrow> nat \<Rightarrow> string \<Rightarrow> nat \<Rightarrow> string \<times> nat" where
  "scrambleLoop r word j anagram n =
     (if j < length word then
        (let k = r n mod length word
         in scrambleLoop r word (j + 1) (swapAt anagram j k) (n + 1))
      else (anagram, n))"
  by pat_completeness auto
termination
  by (relation "measure (\<lambda>(r, word, j, anagram, n). length word - j)") auto

declare scrambleLoop.simps [simp del]

definition scrambleWord :: "(nat \<Rightarrow> nat) \<Rightarrow> string \<Rightarrow> nat \<Rightarrow> string \<times> nat" where
  "scrambleWord r word n = scrambleLoop r word 0 word n"

text \<open>
  The scramble in the words of the specification: for each position \<open>i\<close> from 0 to the
  length minus one, in this order, swap position \<open>i\<close> with a position \<open>k i\<close>.
\<close>

definition scramble_spec :: "(nat \<Rightarrow> nat) \<Rightarrow> string \<Rightarrow> string" where
  "scramble_spec k word = foldl (\<lambda>a i. swapAt a i (k i)) word [0..<length word]"

subsection \<open>Loading words\<close>

text \<open>
  A dictionary file is \<open>None\<close> when it cannot be opened, and otherwise the list of its
  whitespace-delimited tokens. An \<open>ifstream\<close> that failed to open yields no token.
\<close>

definition fileTokens :: "string list option \<Rightarrow> string list" where
  "fileTokens file = (case file of None \<Rightarrow> [] | Some tokens \<Rightarrow> tokens)"

text \<open>
  The loop \<open>while (file >> words[count] && count < maxWords) count++\<close>. The left operand
  is evaluated first: it extracts the next token, if there is one, and stores it in
  \<open>words[count]\<close>; only then is \<open>count\<close> compared with \<open>maxWords\<close>. A failed extraction
  leaves the string it was given unchanged. The variable \<open>count\<close> is \<open>cnt\<close> here.
\<close>

fun loadLoop :: "string list \<Rightarrow> string list \<Rightarrow> nat \<Rightarrow> fault + (string list \<times> nat)" where
  "loadLoop [] words cnt = Inr (words, cnt)"
| "loadLoop (token # rest) words cnt =
     (if length words \<le> cnt then Inl (StoreOutOfBounds cnt token)
      else if cnt < maxWords then loadLoop rest (words[cnt := token]) (cnt + 1)
      else Inr (words[cnt := token], cnt))"

definition loadWords ::
  "string list option \<Rightarrow> string list \<Rightarrow> nat \<Rightarrow> fault + (string list \<times> nat)" where
  "loadWords file words startIndex =
     (case loadLoop (fileTokens file) words startIndex of
        Inl e \<Rightarrow> Inl e
      | Inr (words', cnt) \<Rightarrow> Inr (words', cnt - startIndex))"

subsection \<open>Achievements\<close>

record achievement =
  name :: string
  description :: string
  achieved :: bool

definition Achievement :: "string \<Rightarrow> string \<Rightarrow> achievement" where
  "Achievement n d = \<lparr>name = n, description = d, achieved = False\<rparr>"

text \<open>The global array \<open>achievements\<close> as the program initialises it.\<close>

definition initialAchievements :: "achievement list" where
  "initialAchievements =
     [Achievement ''First Win'' ''Win your first game'',
      Achievement ''Hint Master'' ''Win without using a hint'',
      Achievement ''High Scorer'' ''Reach a score of 50 or more'',
      Achievement ''Quick Thinker'' ''Win within 30 seconds'']"

text \<open>\<open>achievements[i].achieved = true\<close>, for the constant indices 0 to 3.\<close>

definition setAchieved :: "achievement list \<Rightarrow> nat \<Rightarrow> achievement list" where
  "setAchieved as i = as[i := (as ! i)\<lparr>achieved := True\<rparr>]"

definition updateAchievements ::
  "bool \<Rightarrow> int \<Rightarrow> int \<Rightarrow> int \<Rightarrow> achievement list \<Rightarrow> achievement list" where
  "updateAchievements wonGame score hintsUsed timeTaken as =
     (let as1 = (if wonGame \<and> \<not> achieved (as ! 0) then setAchieved as 0 else as);
          as2 = (if wonGame \<and> hintsUsed = 0 \<and> \<not> achieved (as1 ! 1) then setAchieved as1 1 else as1);
          as3 = (if score \<ge> 50 \<and> \<not> achieved (as2 ! 2) then setAchieved as2 2 else as2);
          as4 = (if wonGame \<and> timeTaken \<le> 30 \<and> \<not> achieved (as3 ! 3) then setAchieved as3 3 else as3)
      in as4)"

text \<open>
  The overload \<open>playGame()\<close> without parameters, which \<open>main\<close> calls at the start of
  every turn of its loop. Its score, hint count, time and outcome are local variables.
\<close>

definition playGame0 :: "achievement list \<Rightarrow> achievement list" where
  "playGame0 as =
     (let score = (0::int);
          hintsUsed = (0::int);
          timeTaken = (25::int);
          wonGame = True;
          score = score + 10;
          hintsUsed = (0::int)
      in updateAchievements wonGame score hintsUsed timeTaken as)"

subsection \<open>The state of a session\<close>

text \<open>
  What the user types, one item per line: \<open>Num n\<close> is a line holding the decimal numeral
  of the integer \<open>n\<close>, of any size, and \<open>Txt s\<close> a line holding the single token \<open>s\<close>,
  which does not start a number. The calls \<open>cin.get()\<close> and \<open>cin.ignore()\<close> that wait for
  the Enter key consume no item.

  The marker \<open>Failbit\<close> at the head of the input says that \<open>cin\<close> is in its failed state:
  every extraction fails and assigns nothing, until \<open>cin.clear()\<close>. An extraction of an
  \<open>int\<close> fails on a line that is not a number, which assigns 0, and on a number outside
  the range of \<open>int\<close>, which assigns the nearest limit (C++11). The characters of a line
  that is not a number stay unread, but nothing can read them before \<open>cin.clear()\<close>,
  which the program always follows by \<open>cin.ignore\<close> up to the end of the line; so the
  model drops the line when the extraction fails.
\<close>

datatype input = Num int | Txt string | Failbit

text \<open>
  \<open>cin >> n\<close> for a local \<open>int n\<close> declared without a value, which the program reads
  next without looking at the state of the stream.
\<close>

fun extractInt :: "input list \<Rightarrow> fault + (int \<times> input list)" where
  "extractInt [] = Inl InputExhausted"
| "extractInt (Failbit # rest) = Inl UninitialisedRead"
| "extractInt (Txt s # rest) = Inr (0, Failbit # rest)"
| "extractInt (Num n # rest) =
     (if n < intMin then Inr (intMin, Failbit # rest)
      else if n > intMax then Inr (intMax, Failbit # rest)
      else Inr (n, rest))"

definition cinFailed :: "input list \<Rightarrow> bool" where
  "cinFailed xs = (case xs of Failbit # rest \<Rightarrow> True | _ \<Rightarrow> False)"

text \<open>The characters of the line \<open>Num n\<close>, for an extraction of a string.\<close>

function digits :: "nat \<Rightarrow> string" where
  "digits n = (if n < 10 then [char_of (48 + n)] else digits (n div 10) @ [char_of (48 + n mod 10)])"
  by pat_completeness auto
termination
  by (relation "measure (\<lambda>n. n)") auto

declare digits.simps [simp del]

definition numeralText :: "int \<Rightarrow> string" where
  "numeralText n = (if n < 0 then CHR ''-'' # digits (nat (- n)) else digits (nat n))"

record game =
  score :: int
  highestScore :: int
  streak :: int
  maxStreak :: int
  words :: "string list"
  wordCount :: nat
  achievements :: "achievement list"
  cin :: "input list"
  randCalls :: nat

text \<open>The variables of one round of \<open>playGame\<close>.\<close>

record round =
  attemptsLeft :: int
  hintsUsed :: int
  wordGuessed :: bool

subsection \<open>Score\<close>

definition handleGameOver :: "game \<Rightarrow> string \<Rightarrow> game" where
  "handleGameOver g correctWord = g\<lparr>score := 0\<rparr>"

definition updateScore :: "bool \<Rightarrow> int \<Rightarrow> game \<Rightarrow> game" where
  "updateScore isCorrect points g =
     (if isCorrect then
        (let g1 = g\<lparr>score := wrapInt (score g + points)\<rparr>
         in if score g1 > highestScore g1 then g1\<lparr>highestScore := score g1\<rparr> else g1)
      else g\<lparr>score := wrapInt (score g - 1)\<rparr>)"

subsection \<open>Hints\<close>

datatype hint_output =
    AllHintsUsed             \<comment> \<open>"You have used all available hints for this word."\<close>
  | FirstLetter char
  | WordLength nat
  | RandomLetter nat char    \<comment> \<open>the position, counted from 1, and the letter\<close>
  | InvalidHintChoice        \<comment> \<open>"Invalid hint choice."\<close>

text \<open>The end of \<open>useHint\<close>, reached after one of the three hints was shown.\<close>

definition chargeHint :: "hint_output \<Rightarrow> int \<Rightarrow> game \<Rightarrow> hint_output \<times> int \<times> game" where
  "chargeHint shown used g = (shown, used + 1, g\<lparr>score := wrapInt (score g - hintCost)\<rparr>)"

text \<open>
  \<open>useHint(word, hintsUsed, score)\<close>: the result is what was shown, the new value of
  \<open>hintsUsed\<close> (named \<open>used\<close> here) and the new state. \<open>word[0]\<close> of an empty
  \<open>std::string\<close> is the null character. A choice that is not a number, or a number
  outside the range of \<open>int\<close>, assigns 0 or a limit of \<open>int\<close> to \<open>hintChoice\<close>: the last
  branch is taken, and \<open>cin\<close> is left in its failed state.
\<close>

definition useHint ::
  "(nat \<Rightarrow> nat) \<Rightarrow> string \<Rightarrow> int \<Rightarrow> game \<Rightarrow> fault + (hint_output \<times> int \<times> game)" where
  "useHint r word used g =
     (if used \<ge> maxHintsPerWord then Inr (AllHintsUsed, used, g)
      else
        (case extractInt (cin g) of
           Inl e \<Rightarrow> Inl e
         | Inr (hintChoice, rest) \<Rightarrow>
             (let g1 = g\<lparr>cin := rest\<rparr> in
              if hintChoice = 1 then
                Inr (chargeHint (FirstLetter (if word = [] then CHR 0x00 else word ! 0)) used g1)
              else if hintChoice = 2 then
                Inr (chargeHint (WordLength (length word)) used g1)
              else if hintChoice = 3 then
                (if length word = 0 then Inl DivisionByZero
                 else
                   (let randIndex = r (randCalls g1) mod length word;
                        g2 = g1\<lparr>randCalls := randCalls g1 + 1\<rparr>
                    in Inr (chargeHint (RandomLetter (randIndex + 1) (word ! randIndex)) used g2)))
              else Inr (InvalidHintChoice, used, g1))))"

subsection \<open>One round\<close>

text \<open>The branch of the guessing loop for a correct guess: the points shown and the new state.\<close>

definition correctGuess :: "string \<Rightarrow> game \<Rightarrow> int \<times> game" where
  "correctGuess word g =
     (let points = wrapInt (int (length word));
          comboBonus = wrapInt (streak g * 2);
          points = wrapInt (points + comboBonus);
          g1 = g\<lparr>streak := wrapInt (streak g + 1)\<rparr>;
          g2 = (if streak g1 > maxStreak g1 then g1\<lparr>maxStreak := streak g1\<rparr> else g1)
      in (points, updateScore True points g2))"

text \<open>The branch for an incorrect guess.\<close>

definition incorrectGuess :: "game \<Rightarrow> round \<Rightarrow> game \<times> round" where
  "incorrectGuess g rd = (g\<lparr>streak := 0\<rparr>, rd\<lparr>attemptsLeft := attemptsLeft rd - 1\<rparr>)"

text \<open>
  The body of the guessing loop. The variable \<open>guess\<close> is an empty string when the round
  begins, and a failed extraction leaves it as it is.

  A stream that has failed when the body begins had failed before the round began, since
  a failure inside the round comes from \<open>useHint\<close> only and ends the run here: \<open>guess\<close> is
  then still empty. After \<open>useHint\<close> has left \<open>cin\<close> failed, \<open>guess\<close> is \<open>hint\<close> and no extraction
  can change it: every later turn of the loop calls \<open>useHint\<close> again and continues, the
  attempts and the guessed flag never change, and the loop does not end.
\<close>

definition guessStep :: "(nat \<Rightarrow> nat) \<Rightarrow> string \<Rightarrow> game \<Rightarrow> round \<Rightarrow> fault + (game \<times> round)" where
  "guessStep r word g rd =
     (case cin g of
        [] \<Rightarrow> Inl InputExhausted
      | item # rest \<Rightarrow>
          (let guess = (case item of Txt s \<Rightarrow> s | Num n \<Rightarrow> numeralText n | Failbit \<Rightarrow> []);
               g1 = (case item of Failbit \<Rightarrow> g | _ \<Rightarrow> g\<lparr>cin := rest\<rparr>)
           in
           if guess = ''hint'' then
             (case useHint r word (hintsUsed rd) g1 of
                Inl e \<Rightarrow> Inl e
              | Inr (shown, used, g2) \<Rightarrow>
                  if cinFailed (cin g2) then Inl RoundNeverEnds
                  else Inr (g2, rd\<lparr>hintsUsed := used\<rparr>))
           else if guess = word then
             Inr (snd (correctGuess word g1), rd\<lparr>wordGuessed := True\<rparr>)
           else Inr (incorrectGuess g1 rd)))"

lemma extractInt_cin:
  "extractInt xs = Inr (n, rest) \<Longrightarrow> length rest \<le> length xs"
  by (induction xs rule: extractInt.induct) (auto split: if_splits)

lemma extractInt_good:
  "extractInt xs = Inr (n, rest) \<Longrightarrow> \<not> cinFailed rest \<Longrightarrow> length rest < length xs"
  by (induction xs rule: extractInt.induct) (auto simp: cinFailed_def split: if_splits)

lemma useHint_cin:
  "useHint r word used g = Inr (shown, used', g') \<Longrightarrow> length (cin g') \<le> length (cin g)"
  by (auto simp: useHint_def chargeHint_def Let_def split: if_splits sum.splits
      dest!: extractInt_cin)

text \<open>What each turn of the guessing loop makes smaller.\<close>

definition turnsLeft :: "game \<Rightarrow> round \<Rightarrow> nat" where
  "turnsLeft g rd =
     (if attemptsLeft rd > 0 \<and> \<not> wordGuessed rd
      then 1 + length (cin g) + nat (attemptsLeft rd) else 0)"

lemma guessStep_cin:
  "guessStep r word g rd = Inr (g', rd') \<Longrightarrow> length (cin g') \<le> length (cin g)"
  by (auto simp: guessStep_def correctGuess_def incorrectGuess_def updateScore_def Let_def
      split: if_splits list.splits input.splits sum.splits dest!: useHint_cin)

lemma guessStep_turnsLeft:
  "attemptsLeft rd > 0 \<Longrightarrow> \<not> wordGuessed rd \<Longrightarrow> guessStep r word g rd = Inr (g', rd') \<Longrightarrow>
   turnsLeft g' rd' < turnsLeft g rd"
  by (auto simp: guessStep_def correctGuess_def incorrectGuess_def updateScore_def Let_def
      turnsLeft_def
      split: if_splits list.splits input.splits sum.splits dest!: useHint_cin)

function guessLoop :: "(nat \<Rightarrow> nat) \<Rightarrow> string \<Rightarrow> game \<Rightarrow> round \<Rightarrow> fault + (game \<times> round)" where
  "guessLoop r word g rd =
     (if attemptsLeft rd > 0 \<and> \<not> wordGuessed rd then
        (case guessStep r word g rd of
           Inl e \<Rightarrow> Inl e
         | Inr (g', rd') \<Rightarrow> guessLoop r word g' rd')
      else Inr (g, rd))"
  by pat_completeness auto
termination
  by (relation "measure (\<lambda>(r, word, g, rd). turnsLeft g rd)") (auto dest: guessStep_turnsLeft)

declare guessLoop.simps [simp del]

text \<open>The end of a round: \<open>if (!wordGuessed) handleGameOver(score, word)\<close>.\<close>

definition finishRound :: "game \<Rightarrow> round \<Rightarrow> string \<Rightarrow> game" where
  "finishRound g rd word = (if \<not> wordGuessed rd then handleGameOver g word else g)"

text \<open>
  \<open>playGame(score, highestScore, streak, maxStreak, words, wordCount, difficulty)\<close>. The
  array \<open>filteredWords\<close> is a local variable, \<open>maxWords\<close> empty strings at first.
\<close>

definition playGame :: "(nat \<Rightarrow> nat) \<Rightarrow> int \<Rightarrow> game \<Rightarrow> fault + game" where
  "playGame r difficulty g =
     (if wordCount g = 0 then Inr g
      else
        (case filterWordsByDifficulty (replicate maxWords []) (words g) (wordCount g) difficulty of
           Inl e \<Rightarrow> Inl e
         | Inr (filteredWords, filteredCount) \<Rightarrow>
             if filteredCount = 0 then Inr g
             else
               (let word = filteredWords ! (r (randCalls g) mod filteredCount);
                    g1 = g\<lparr>randCalls := randCalls g + 1\<rparr>;
                    (scrambledWord, n) = scrambleWord r word (randCalls g1);
                    g2 = g1\<lparr>randCalls := n\<rparr>;
                    rd = \<lparr>attemptsLeft = 3, hintsUsed = 0, wordGuessed = False\<rparr>
                in case guessLoop r word g2 rd of
                     Inl e \<Rightarrow> Inl e
                   | Inr (g3, rd') \<Rightarrow> Inr (finishRound g3 rd' word))))"

subsection \<open>The shop and the menu\<close>

definition displayShop :: "string list option \<Rightarrow> game \<Rightarrow> fault + game" where
  "displayShop dictionary2 g =
     (case extractInt (cin g) of
        Inl e \<Rightarrow> Inl e
      | Inr (shopOption, rest) \<Rightarrow>
          (let g1 = g\<lparr>cin := rest\<rparr> in
           if shopOption = 1 then
             (case loadWords dictionary2 (words g1) (wordCount g1) of
                Inl e \<Rightarrow> Inl e
              | Inr (words', newWords) \<Rightarrow>
                  Inr (g1\<lparr>words := words', wordCount := wordCount g1 + newWords\<rparr>))
           else Inr g1))"

definition getDifficultyChoice :: "game \<Rightarrow> fault + (int \<times> game)" where
  "getDifficultyChoice g =
     (case extractInt (cin g) of
        Inl e \<Rightarrow> Inl e
      | Inr (difficulty, rest) \<Rightarrow> Inr (difficulty, g\<lparr>cin := rest\<rparr>))"

text \<open>
  The loop \<open>while (!(cin >> option))\<close> of \<open>main\<close>: when the extraction fails, because the
  stream had failed, or the line is not a number or is a number outside the range of
  \<open>int\<close>, the stream is cleared, the rest of the line is discarded and the menu asks
  again.
\<close>

fun readOption :: "input list \<Rightarrow> fault + (int \<times> input list)" where
  "readOption [] = Inl InputExhausted"
| "readOption (Failbit # rest) = readOption rest"
| "readOption (Txt s # rest) = readOption rest"
| "readOption (Num option # rest) =
     (if inIntRange option then Inr (option, rest) else readOption rest)"

lemma guessLoop_cin:
  "guessLoop r word g rd = Inr (g', rd') \<Longrightarrow> length (cin g') \<le> length (cin g)"
proof (induction r word g rd rule: guessLoop.induct)
  case (1 r word g rd)
  show ?case
  proof (cases "attemptsLeft rd > 0 \<and> \<not> wordGuessed rd")
    case False
    with "1.prems" show ?thesis by (simp add: guessLoop.simps [of r word g rd])
  next
    case True
    with "1.prems" obtain g1 rd1 where
      st: "guessStep r word g rd = Inr (g1, rd1)" and lp: "guessLoop r word g1 rd1 = Inr (g', rd')"
      by (auto simp: guessLoop.simps [of r word g rd] split: sum.splits)
    from "1.IH" [OF True st refl lp] guessStep_cin [OF st] show ?thesis by simp
  qed
qed

lemma playGame_cin: "playGame r difficulty g = Inr g' \<Longrightarrow> length (cin g') \<le> length (cin g)"
  by (auto simp: playGame_def Let_def finishRound_def handleGameOver_def
      split: if_splits sum.splits prod.splits dest!: guessLoop_cin)

lemma displayShop_cin: "displayShop dictionary2 g = Inr g' \<Longrightarrow> length (cin g') \<le> length (cin g)"
  by (auto simp: displayShop_def Let_def split: if_splits sum.splits dest!: extractInt_cin)

lemma getDifficultyChoice_cin:
  "getDifficultyChoice g = Inr (d, g') \<Longrightarrow> length (cin g') \<le> length (cin g)"
  by (auto simp: getDifficultyChoice_def split: sum.splits dest!: extractInt_cin)

lemma readOption_cin: "readOption xs = Inr (n, rest) \<Longrightarrow> length rest < length xs"
  by (induction xs rule: readOption.induct) (auto split: if_splits)

text \<open>
  One turn of the loop of \<open>main\<close> and the turns after it. The loop starts each turn
  with \<open>playGame()\<close>, then shows the menu and reads the option.
\<close>

function mainLoop :: "(nat \<Rightarrow> nat) \<Rightarrow> string list option \<Rightarrow> game \<Rightarrow> fault + game" where
  "mainLoop r dictionary2 g =
     (let g1 = g\<lparr>achievements := playGame0 (achievements g)\<rparr> in
      case readOption (cin g1) of
        Inl e \<Rightarrow> Inl e
      | Inr (option, rest) \<Rightarrow>
          (let g2 = g1\<lparr>cin := rest\<rparr> in
           if option = 1 then
             (case getDifficultyChoice g2 of
                Inl e \<Rightarrow> Inl e
              | Inr (difficulty, g3) \<Rightarrow>
                  (case playGame r difficulty g3 of
                     Inl e \<Rightarrow> Inl e
                   | Inr g4 \<Rightarrow> mainLoop r dictionary2 g4))
           else if option = 2 then
             (case displayShop dictionary2 g2 of
                Inl e \<Rightarrow> Inl e
              | Inr g3 \<Rightarrow> mainLoop r dictionary2 g3)
           else if option = 3 then Inr g2
           else mainLoop r dictionary2 g2))"
  by pat_completeness auto
termination
proof (relation "measure (\<lambda>(r, dictionary2, g). length (cin g))", goal_cases)
  case 1
  show ?case by simp
next
  case (2 r dictionary2 g g1 x2 option rest g2 x2a difficulty g3 g4)
  then show ?case
    by (auto dest!: readOption_cin getDifficultyChoice_cin playGame_cin)
next
  case (3 r dictionary2 g g1 x2 option rest g2 g3)
  then show ?case
    by (auto dest!: readOption_cin displayShop_cin)
next
  case (4 r dictionary2 g g1 x2 option rest g2)
  then show ?case
    by (auto dest!: readOption_cin)
qed

declare mainLoop.simps [simp del]

text \<open>
  \<open>main\<close>, from the contents of \<open>dictionary.txt\<close> and \<open>dictionary2.txt\<close> and what the user
  types. The array \<open>words\<close> is \<open>maxWords\<close> empty strings at first.
\<close>

definition main :: "(nat \<Rightarrow> nat) \<Rightarrow> string list option \<Rightarrow> string list option \<Rightarrow> input list \<Rightarrow> fault + game" where
  "main r dictionary dictionary2 typed =
     (case loadWords dictionary (replicate maxWords []) 0 of
        Inl e \<Rightarrow> Inl e
      | Inr (words0, wordCount0) \<Rightarrow>
          mainLoop r dictionary2
            \<lparr>score = 0, highestScore = 0, streak = 0, maxStreak = 0,
             words = words0, wordCount = wordCount0,
             achievements = initialAchievements, cin = typed, randCalls = 0\<rparr>)"

section \<open>Difficulty bands and filtering\<close>

lemma filterLoop_take:
  "wc \<le> length ws \<Longrightarrow> wc \<le> length fw \<Longrightarrow> fc \<le> i \<Longrightarrow>
   \<exists>fw'. filterLoop ws wc d i fw fc =
            Inr (fw', fc + length (filter (matchesDifficulty d) (drop i (take wc ws)))) \<and>
         length fw' = length fw \<and>
         take (fc + length (filter (matchesDifficulty d) (drop i (take wc ws)))) fw' =
           take fc fw @ filter (matchesDifficulty d) (drop i (take wc ws))"
proof (induction ws wc d i fw fc rule: filterLoop.induct)
  case (1 ws wc d i fw fc)
  show ?case
  proof (cases "i < wc")
    case False
    then show ?thesis by (simp add: filterLoop.simps [of ws wc d i fw fc])
  next
    case lt: True
    with "1.prems" have inw: "i < length ws" and fcl: "fc < length fw" by auto
    from lt inw have dr: "drop i (take wc ws) = ws ! i # drop (i + 1) (take wc ws)"
      using Cons_nth_drop_Suc [of i "take wc ws"] by simp
    show ?thesis
    proof (cases "d = 1 \<or> d = 2 \<or> d = 3")
      case False
      then have nm: "\<And>w. \<not> matchesDifficulty d w" by (auto simp: matchesDifficulty_def)
      from "1.IH"(3) [OF lt False] "1.prems" False lt
      show ?thesis
        by (simp add: filterLoop.simps [of ws wc d i fw fc] nm)
    next
      case d123: True
      show ?thesis
      proof (cases "matchesDifficulty d (ws ! i)")
        case True
        from "1.IH"(1) [OF lt d123 _ True] inw fcl "1.prems"
        obtain fw' where
          "filterLoop ws wc d (i + 1) (fw[fc := ws ! i]) (fc + 1) =
             Inr (fw', fc + 1 + length (filter (matchesDifficulty d) (drop (i + 1) (take wc ws))))"
          "length fw' = length fw"
          "take (fc + 1 + length (filter (matchesDifficulty d) (drop (i + 1) (take wc ws)))) fw' =
             take (fc + 1) (fw[fc := ws ! i]) @ filter (matchesDifficulty d) (drop (i + 1) (take wc ws))"
          by auto
        with True d123 lt inw fcl show ?thesis
          by (simp add: filterLoop.simps [of ws wc d i fw fc] dr take_Suc_conv_app_nth)
      next
        case False
        from "1.IH"(2) [OF lt d123 _ False] inw "1.prems"
        obtain fw' where
          "filterLoop ws wc d (i + 1) fw fc =
             Inr (fw', fc + length (filter (matchesDifficulty d) (drop (i + 1) (take wc ws))))"
          "length fw' = length fw"
          "take (fc + length (filter (matchesDifficulty d) (drop (i + 1) (take wc ws)))) fw' =
             take fc fw @ filter (matchesDifficulty d) (drop (i + 1) (take wc ws))"
          by auto
        with False d123 lt inw show ?thesis
          by (simp add: filterLoop.simps [of ws wc d i fw fc] dr)
      qed
    qed
  qed
qed

lemma matchesDifficulty_band: "matchesDifficulty (difficultyOf b) w \<longleftrightarrow> classify_spec w = Some b"
  by (cases b)
     (auto simp: matchesDifficulty_def classify_spec_def isEasyWord_def isMediumWord_def isHardWord_def
        easyMinLength_def easyMaxLength_def mediumMinLength_def mediumMaxLength_def hardMinLength_def)

text \<open>
  Claim C9. The three tests depend on the length of the word only: Easy is 3 to 5
  letters, Medium 6 to 8, Hard 9 and more, and a word of fewer than 3 letters is in no
  band; they agree with the classification of the specification. For a word count within
  both arrays, filtering by the number of a band succeeds, counts the words of that band
  among the first \<open>wc\<close> words, and stores exactly these words, in their order, at
  the front of the filtered array (none when no word is in the band).
\<close>

theorem classify_and_filter:
  "(isEasyWord w \<longleftrightarrow> 3 \<le> length w \<and> length w \<le> 5) \<and>
   (isMediumWord w \<longleftrightarrow> 6 \<le> length w \<and> length w \<le> 8) \<and>
   (isHardWord w \<longleftrightarrow> 9 \<le> length w) \<and>
   (length w < 3 \<longrightarrow> \<not> isEasyWord w \<and> \<not> isMediumWord w \<and> \<not> isHardWord w) \<and>
   (isEasyWord w \<longleftrightarrow> classify_spec w = Some Easy) \<and>
   (isMediumWord w \<longleftrightarrow> classify_spec w = Some Medium) \<and>
   (isHardWord w \<longleftrightarrow> classify_spec w = Some Hard) \<and>
   (wc \<le> length ws \<and> wc \<le> length fw \<longrightarrow>
      (\<exists>fw'. filterWordsByDifficulty fw ws wc (difficultyOf b) =
                Inr (fw', length (filter_spec (take wc ws) b)) \<and>
              take (length (filter_spec (take wc ws) b)) fw' = filter_spec (take wc ws) b))"
proof -
  have bands:
    "(isEasyWord w \<longleftrightarrow> 3 \<le> length w \<and> length w \<le> 5) \<and>
     (isMediumWord w \<longleftrightarrow> 6 \<le> length w \<and> length w \<le> 8) \<and>
     (isHardWord w \<longleftrightarrow> 9 \<le> length w)"
    by (auto simp: isEasyWord_def isMediumWord_def isHardWord_def
        easyMinLength_def easyMaxLength_def mediumMinLength_def mediumMaxLength_def hardMinLength_def)
  then have short: "length w < 3 \<longrightarrow> \<not> isEasyWord w \<and> \<not> isMediumWord w \<and> \<not> isHardWord w"
    by auto
  from bands have cls:
    "(isEasyWord w \<longleftrightarrow> classify_spec w = Some Easy) \<and>
     (isMediumWord w \<longleftrightarrow> classify_spec w = Some Medium) \<and>
     (isHardWord w \<longleftrightarrow> classify_spec w = Some Hard)"
    by (auto simp: classify_spec_def)
  have sel: "filter (matchesDifficulty (difficultyOf b)) xs = filter_spec xs b" for xs
    by (simp add: filter_spec_def matchesDifficulty_band cong: filter_cong)
  have flt: "wc \<le> length ws \<and> wc \<le> length fw \<longrightarrow>
      (\<exists>fw'. filterWordsByDifficulty fw ws wc (difficultyOf b) =
                Inr (fw', length (filter_spec (take wc ws) b)) \<and>
              take (length (filter_spec (take wc ws) b)) fw' = filter_spec (take wc ws) b)"
  proof
    assume a: "wc \<le> length ws \<and> wc \<le> length fw"
    then have "wc \<le> length ws" "wc \<le> length fw" by auto
    from filterLoop_take [OF this, of 0 0 "difficultyOf b"]
    show "\<exists>fw'. filterWordsByDifficulty fw ws wc (difficultyOf b) =
                Inr (fw', length (filter_spec (take wc ws) b)) \<and>
              take (length (filter_spec (take wc ws) b)) fw' = filter_spec (take wc ws) b"
      by (auto simp: filterWordsByDifficulty_def sel)
  qed
  from bands short cls flt show ?thesis by blast
qed

theorem classify_and_filter_witness:
  "length ''hi'' < 3 \<and> \<not> isEasyWord ''hi'' \<and> \<not> isMediumWord ''hi'' \<and> \<not> isHardWord ''hi'' \<and>
   (5::nat) \<le> length [''cat'', ''planet'', ''house'', ''dog'', ''hi''] \<and>
   (5::nat) \<le> length (replicate 5 ([]::string)) \<and>
   filter_spec (take 5 [''cat'', ''planet'', ''house'', ''dog'', ''hi'']) Easy = [''cat'', ''house'', ''dog''] \<and>
   (\<exists>fw'. filterWordsByDifficulty (replicate 5 []) [''cat'', ''planet'', ''house'', ''dog'', ''hi''] 5
             (difficultyOf Easy) = Inr (fw', 3) \<and>
           take 3 fw' = [''cat'', ''house'', ''dog''])"
proof -
  have f: "filter_spec (take 5 [''cat'', ''planet'', ''house'', ''dog'', ''hi'']) Easy = [''cat'', ''house'', ''dog'']"
    by (simp add: filter_spec_def classify_spec_def)
  have h: "(5::nat) \<le> length [''cat'', ''planet'', ''house'', ''dog'', ''hi''] \<and>
           (5::nat) \<le> length (replicate 5 ([]::string))"
    by simp
  from classify_and_filter [of "''hi''" 5 "[''cat'', ''planet'', ''house'', ''dog'', ''hi'']"
      "replicate 5 []" Easy] h f
  show ?thesis by (simp add: numeral_3_eq_3)
qed

section \<open>Scrambling is a permutation\<close>

lemma length_swapAt [simp]: "length (swapAt a j k) = length a"
  by (simp add: swapAt_def)

lemma mset_swapAt: "j < length a \<Longrightarrow> k < length a \<Longrightarrow> mset (swapAt a j k) = mset a"
  by (simp add: swapAt_def mset_swap)

lemma swapAt_same [simp]: "swapAt a j j = a"
  by (simp add: swapAt_def)

lemma scrambleLoop_mset:
  "length anagram = length word \<Longrightarrow>
   mset (fst (scrambleLoop r word j anagram n)) = mset anagram \<and>
   snd (scrambleLoop r word j anagram n) = n + (length word - j)"
proof (induction r word j anagram n rule: scrambleLoop.induct)
  case (1 r word j anagram n)
  show ?case
  proof (cases "j < length word")
    case False
    then show ?thesis by (simp add: scrambleLoop.simps [of r word j anagram n])
  next
    case True
    then have "0 < length word" by arith
    then have k: "r n mod length word < length word" by (rule mod_less_divisor)
    from "1.IH" [OF True refl] "1.prems" True k show ?thesis
      by (simp add: scrambleLoop.simps [of r word j anagram n] mset_swapAt)
  qed
qed

lemma scrambleLoop_foldl:
  "\<forall>i. j \<le> i \<and> i < length word \<longrightarrow> r (n + (i - j)) mod length word = k i \<Longrightarrow>
   fst (scrambleLoop r word j anagram n) = foldl (\<lambda>a i. swapAt a i (k i)) anagram [j..<length word]"
proof (induction r word j anagram n rule: scrambleLoop.induct)
  case (1 r word j anagram n)
  show ?case
  proof (cases "j < length word")
    case False
    then show ?thesis by (simp add: scrambleLoop.simps [of r word j anagram n])
  next
    case True
    from "1.prems" True have kj: "r n mod length word = k j" by auto
    have "\<forall>i. j + 1 \<le> i \<and> i < length word \<longrightarrow> r (n + 1 + (i - (j + 1))) mod length word = k i"
    proof (intro allI impI)
      fix i assume a: "j + 1 \<le> i \<and> i < length word"
      then have "n + 1 + (i - (j + 1)) = n + (i - j)" by arith
      with "1.prems" a show "r (n + 1 + (i - (j + 1))) mod length word = k i" by auto
    qed
    from "1.IH" [OF True refl this] True kj show ?thesis
      by (simp add: scrambleLoop.simps [of r word j anagram n] upt_conv_Cons)
  qed
qed

lemma foldl_swapAt_id:
  "\<forall>i \<in> set xs. k i = i \<Longrightarrow> foldl (\<lambda>a i. swapAt a i (k i)) a xs = a"
  by (induction xs arbitrary: a) auto

text \<open>
  Claim C8. For every non-empty word and every behaviour of \<open>rand\<close>, the scrambled word
  has the same characters with the same multiplicities as the word. It is the result of
  swapping, for each position \<open>i\<close> from 0 to the length minus one in turn, position \<open>i\<close>
  with the position \<open>rand() mod length\<close>, which lies in the word; \<open>rand\<close> is called once
  per position. Some behaviour of \<open>rand\<close> gives back the word itself.
\<close>

theorem scrambleWord_permutation:
  "word \<noteq> [] \<Longrightarrow>
     mset (fst (scrambleWord r word n)) = mset word \<and>
     fst (scrambleWord r word n) = scramble_spec (\<lambda>i. r (n + i) mod length word) word \<and>
     (\<forall>i. r (n + i) mod length word < length word) \<and>
     snd (scrambleWord r word n) = n + length word \<and>
     (\<exists>r'. fst (scrambleWord r' word n) = word)"
proof -
  assume ne: "word \<noteq> []"
  have a: "mset (fst (scrambleWord r word n)) = mset word"
    and d: "snd (scrambleWord r word n) = n + length word"
    using scrambleLoop_mset [of word word r 0 n] by (simp_all add: scrambleWord_def)
  have b: "fst (scrambleWord r' word n) = scramble_spec (\<lambda>i. r' (n + i) mod length word) word" for r'
    unfolding scrambleWord_def scramble_spec_def
    by (rule scrambleLoop_foldl) simp
  from ne have c: "\<forall>i. r (n + i) mod length word < length word" by simp
  have idr: "fst (scrambleWord (\<lambda>m. m - n) word n) = word"
    unfolding b scramble_spec_def by (rule foldl_swapAt_id) simp
  have e: "\<exists>r'. fst (scrambleWord r' word n) = word"
    by (rule exI [where x = "\<lambda>m. m - n"]) (rule idr)
  from a b c d e show ?thesis by blast
qed

theorem scrambleWord_permutation_witness:
  "''house'' \<noteq> [] \<and>
   scrambleWord (\<lambda>n. 7 * n + 3) ''house'' 0 = (''ohues'', 5) \<and>
   mset ''ohues'' = mset ''house'' \<and>
   ''ohues'' = scramble_spec (\<lambda>i. (7 * (0 + i) + 3) mod length ''house'') ''house'' \<and>
   (\<exists>r'. fst (scrambleWord r' ''house'' 0) = ''house'')"
proof -
  have e: "scrambleWord (\<lambda>n. 7 * n + 3) ''house'' 0 = (''ohues'', 5)"
    by code_simp
  have ne: "''house'' \<noteq> []" by simp
  note t = scrambleWord_permutation [OF ne, of "\<lambda>n. 7 * n + 3" 0]
  from t have "mset (fst (scrambleWord (\<lambda>n. 7 * n + 3) ''house'' 0)) = mset ''house''"
    by (rule conjunct1)
  then have m: "mset ''ohues'' = mset ''house''"
    unfolding e fst_conv .
  from t have "fst (scrambleWord (\<lambda>n. 7 * n + 3) ''house'' 0) =
      scramble_spec (\<lambda>i. (7 * (0 + i) + 3) mod length ''house'') ''house''"
    by blast
  then have s: "''ohues'' = scramble_spec (\<lambda>i. (7 * (0 + i) + 3) mod length ''house'') ''house''"
    unfolding e fst_conv .
  from t have x: "\<exists>r'. fst (scrambleWord r' ''house'' 0) = ''house''"
    by blast
  from ne e m s x show ?thesis by blast
qed

section \<open>Loading words\<close>

text \<open>
  The count that \<open>loadWords\<close> reaches never goes down and, started at most at
  \<open>maxWords\<close>, never passes \<open>maxWords\<close>; the array keeps its size.
\<close>

lemma loadLoop_count:
  "loadLoop tokens ws c = Inr (ws', c') \<Longrightarrow> c \<le> c' \<and> (c \<le> maxWords \<longrightarrow> c' \<le> maxWords) \<and> length ws' = length ws"
  by (induction tokens ws c rule: loadLoop.induct) (auto split: if_splits)

text \<open>
  At a count of \<open>maxWords\<close> with a token left in the file, the loop extracts the token
  and stores it at index \<open>maxWords\<close> before it compares the count with \<open>maxWords\<close>.
\<close>

lemma loadLoop_at_capacity:
  "length ws = maxWords \<Longrightarrow> loadLoop (t # ts) ws maxWords = Inl (StoreOutOfBounds maxWords t)"
  by simp

text \<open>
  Claim C10. Whatever the word array and the start index, loading from a file that cannot
  be opened returns the array unchanged and 0 as the number of words loaded; the shop,
  asked to load such a file, leaves the words and the word count of the session
  unchanged.
\<close>

theorem loadWords_unopened_file:
  "loadWords None ws startIndex = Inr (ws, 0) \<and>
   displayShop None (g\<lparr>cin := Num 1 # rest\<rparr>) = Inr (g\<lparr>cin := rest\<rparr>)"
  by (simp add: loadWords_def fileTokens_def displayShop_def intMin_def intMax_def)

text \<open>
  Claim C3, at two inputs. With a full array of 200 words and a file of one token, and
  with an empty array and a file of 201 tokens, the load extracts one token more than the
  array holds and stores it at index 200, outside the 200 elements.
\<close>

theorem loadWords_store_past_capacity:
  "loadWords (Some [''zebra'']) (replicate 200 ''word'') 200 = Inl (StoreOutOfBounds 200 ''zebra'') \<and>
   loadWords (Some (replicate 201 ''word'')) (replicate 200 []) 0 = Inl (StoreOutOfBounds 200 ''word'')"
proof -
  have a: "loadWords (Some [''zebra'']) (replicate 200 ''word'') 200 = Inl (StoreOutOfBounds 200 ''zebra'')"
    by (simp add: loadWords_def fileTokens_def)
  have b: "loadWords (Some (replicate 201 ''word'')) (replicate 200 []) 0 = Inl (StoreOutOfBounds 200 ''word'')"
    by code_simp
  from a b show ?thesis by simp
qed

section \<open>Scoring in a round\<close>

lemma wrapInt_id: "inIntRange x \<Longrightarrow> wrapInt x = x"
  by (simp add: wrapInt_def inIntRange_def intMin_def intMax_def)

lemma wrapInt_range: "inIntRange (wrapInt x)"
  by (simp add: wrapInt_def inIntRange_def intMin_def intMax_def)

text \<open>The guessing loop ends with the attempts used up or the word guessed.\<close>

lemma guessLoop_exit:
  "guessLoop r w g rd = Inr (g', rd') \<Longrightarrow> attemptsLeft rd' \<le> 0 \<or> wordGuessed rd'"
proof (induction r w g rd rule: guessLoop.induct)
  case (1 r w g rd)
  show ?case
  proof (cases "attemptsLeft rd > 0 \<and> \<not> wordGuessed rd")
    case False
    with "1.prems" show ?thesis by (auto simp: guessLoop.simps [of r w g rd])
  next
    case True
    with "1.prems" obtain g1 rd1 where
      st: "guessStep r w g rd = Inr (g1, rd1)" and lp: "guessLoop r w g1 rd1 = Inr (g', rd')"
      by (auto simp: guessLoop.simps [of r w g rd] split: sum.splits)
    from "1.IH" [OF True st refl lp] show ?thesis .
  qed
qed

text \<open>
  Claim C4 fails as stated, at two inputs. After 46339 rounds in a row won at the first
  guess on a word of 3 letters the score is 2147395599 and the streak 46339; the next
  correct guess awards 92681 points, and the score becomes negative instead of growing by
  the points, while the highest score stays. And when the word is \<open>hint\<close>, typing the
  word is taken as the request for a hint: a point is taken, no point is awarded and the
  word is not guessed.
\<close>

theorem correct_guess_counterexample:
  "fst (correctGuess ''cat''
     \<lparr>score = 2147395599, highestScore = 2147395599, streak = 46339, maxStreak = 46339,
      words = [''cat''], wordCount = 1, achievements = initialAchievements,
      cin = [], randCalls = 185356\<rparr>) = 92681 \<and>
   score (snd (correctGuess ''cat''
     \<lparr>score = 2147395599, highestScore = 2147395599, streak = 46339, maxStreak = 46339,
      words = [''cat''], wordCount = 1, achievements = initialAchievements,
      cin = [], randCalls = 185356\<rparr>)) = - 2147479016 \<and>
   highestScore (snd (correctGuess ''cat''
     \<lparr>score = 2147395599, highestScore = 2147395599, streak = 46339, maxStreak = 46339,
      words = [''cat''], wordCount = 1, achievements = initialAchievements,
      cin = [], randCalls = 185356\<rparr>)) = 2147395599 \<and>
   guessStep id ''hint''
     \<lparr>score = 0, highestScore = 0, streak = 0, maxStreak = 0,
      words = [''hint''], wordCount = 1, achievements = initialAchievements,
      cin = [Txt ''hint'', Num 2], randCalls = 5\<rparr>
     \<lparr>attemptsLeft = 3, hintsUsed = 0, wordGuessed = False\<rparr> =
   Inr (\<lparr>score = - 1, highestScore = 0, streak = 0, maxStreak = 0,
      words = [''hint''], wordCount = 1, achievements = initialAchievements,
      cin = [], randCalls = 5\<rparr>,
      \<lparr>attemptsLeft = 3, hintsUsed = 1, wordGuessed = False\<rparr>)"
proof -
  have a: "correctGuess ''cat''
     \<lparr>score = 2147395599, highestScore = 2147395599, streak = 46339, maxStreak = 46339,
      words = [''cat''], wordCount = 1, achievements = initialAchievements,
      cin = [], randCalls = 185356\<rparr> =
    (92681, \<lparr>score = - 2147479016, highestScore = 2147395599, streak = 46340, maxStreak = 46340,
      words = [''cat''], wordCount = 1, achievements = initialAchievements,
      cin = [], randCalls = 185356\<rparr>)"
    by (simp add: correctGuess_def updateScore_def wrapInt_def Let_def)
  have b: "guessStep id ''hint''
     \<lparr>score = 0, highestScore = 0, streak = 0, maxStreak = 0,
      words = [''hint''], wordCount = 1, achievements = initialAchievements,
      cin = [Txt ''hint'', Num 2], randCalls = 5\<rparr>
     \<lparr>attemptsLeft = 3, hintsUsed = 0, wordGuessed = False\<rparr> =
   Inr (\<lparr>score = - 1, highestScore = 0, streak = 0, maxStreak = 0,
      words = [''hint''], wordCount = 1, achievements = initialAchievements,
      cin = [], randCalls = 5\<rparr>,
      \<lparr>attemptsLeft = 3, hintsUsed = 1, wordGuessed = False\<rparr>)"
    by (simp add: guessStep_def useHint_def chargeHint_def maxHintsPerWord_def hintCost_def
        wrapInt_def intMin_def intMax_def cinFailed_def)
  from a b show ?thesis by simp
qed

text \<open>
  Claim C4, amended. The text \<open>hint\<close> is always taken as the request for a hint and
  never as a guess: such a turn leaves the streak, the highest score, the attempts and
  the guessed flag as they are. For every other guess that is the word, of length \<open>L\<close>
  at streak \<open>S\<close>, the guessing loop marks the word as guessed and ends; and as long as
  \<open>L\<close>, \<open>2 * S\<close>, \<open>L + 2 * S\<close>, \<open>S + 1\<close> and the score plus \<open>L + 2 * S\<close> are in the range of
  \<open>int\<close>, it awards \<open>L + 2 * S\<close> points, the streak grows by 1, the maximal streak becomes
  the new streak if that is larger, the points are added to the score, and the highest
  score becomes the new score if that is larger.
\<close>

theorem correct_guess_points:
  "(inIntRange (int (length w)) \<and> inIntRange (2 * streak g) \<and>
    inIntRange (int (length w) + 2 * streak g) \<and> inIntRange (streak g + 1) \<and>
    inIntRange (score g + (int (length w) + 2 * streak g)) \<longrightarrow>
      fst (correctGuess w g) = int (length w) + 2 * streak g \<and>
      streak (snd (correctGuess w g)) = streak g + 1 \<and>
      maxStreak (snd (correctGuess w g)) =
        (if streak g + 1 > maxStreak g then streak g + 1 else maxStreak g) \<and>
      score (snd (correctGuess w g)) = score g + (int (length w) + 2 * streak g) \<and>
      highestScore (snd (correctGuess w g)) =
        (if score g + (int (length w) + 2 * streak g) > highestScore g
         then score g + (int (length w) + 2 * streak g) else highestScore g)) \<and>
   (cin g = Txt w # rest \<and> w \<noteq> ''hint'' \<longrightarrow>
      guessStep r w g rd = Inr (snd (correctGuess w (g\<lparr>cin := rest\<rparr>)), rd\<lparr>wordGuessed := True\<rparr>)) \<and>
   (cin g = Txt w # rest \<and> w \<noteq> ''hint'' \<and> attemptsLeft rd > 0 \<and> \<not> wordGuessed rd \<longrightarrow>
      guessLoop r w g rd = Inr (snd (correctGuess w (g\<lparr>cin := rest\<rparr>)), rd\<lparr>wordGuessed := True\<rparr>)) \<and>
   (cin g = Txt ''hint'' # rest \<and> guessStep r w g rd = Inr (g', rd') \<longrightarrow>
      wordGuessed rd' = wordGuessed rd \<and> attemptsLeft rd' = attemptsLeft rd \<and>
      streak g' = streak g \<and> highestScore g' = highestScore g)"
proof -
  have pts: "fst (correctGuess w g) = int (length w) + 2 * streak g \<and>
      streak (snd (correctGuess w g)) = streak g + 1 \<and>
      maxStreak (snd (correctGuess w g)) =
        (if streak g + 1 > maxStreak g then streak g + 1 else maxStreak g) \<and>
      score (snd (correctGuess w g)) = score g + (int (length w) + 2 * streak g) \<and>
      highestScore (snd (correctGuess w g)) =
        (if score g + (int (length w) + 2 * streak g) > highestScore g
         then score g + (int (length w) + 2 * streak g) else highestScore g)"
    if rg: "inIntRange (int (length w)) \<and> inIntRange (2 * streak g) \<and>
      inIntRange (int (length w) + 2 * streak g) \<and> inIntRange (streak g + 1) \<and>
      inIntRange (score g + (int (length w) + 2 * streak g))"
  proof -
    from rg have w1: "wrapInt (int (length w)) = int (length w)"
      and w2: "wrapInt (streak g * 2) = 2 * streak g"
      and w3: "wrapInt (int (length w) + 2 * streak g) = int (length w) + 2 * streak g"
      and w4: "wrapInt (streak g + 1) = streak g + 1"
      and w5: "wrapInt (score g + (int (length w) + 2 * streak g)) =
          score g + (int (length w) + 2 * streak g)"
      by (simp_all add: wrapInt_id mult.commute)
    show ?thesis
      by (simp add: correctGuess_def updateScore_def Let_def w1 w2 w3 w4 w5)
  qed
  have step: "guessStep r w g rd = Inr (snd (correctGuess w (g\<lparr>cin := rest\<rparr>)), rd\<lparr>wordGuessed := True\<rparr>)"
    if "cin g = Txt w # rest \<and> w \<noteq> ''hint''"
    using that by (simp add: guessStep_def Let_def)
  have loop: "guessLoop r w g rd = Inr (snd (correctGuess w (g\<lparr>cin := rest\<rparr>)), rd\<lparr>wordGuessed := True\<rparr>)"
    if a: "cin g = Txt w # rest \<and> w \<noteq> ''hint'' \<and> attemptsLeft rd > 0 \<and> \<not> wordGuessed rd"
  proof -
    from a have "guessLoop r w g rd =
        guessLoop r w (snd (correctGuess w (g\<lparr>cin := rest\<rparr>))) (rd\<lparr>wordGuessed := True\<rparr>)"
      by (simp add: guessLoop.simps [of r w g rd] step)
    also have "\<dots> = Inr (snd (correctGuess w (g\<lparr>cin := rest\<rparr>)), rd\<lparr>wordGuessed := True\<rparr>)"
      by (simp add: guessLoop.simps [of r w "snd (correctGuess w (g\<lparr>cin := rest\<rparr>))"])
    finally show ?thesis .
  qed
  have hint: "wordGuessed rd' = wordGuessed rd \<and> attemptsLeft rd' = attemptsLeft rd \<and>
      streak g' = streak g \<and> highestScore g' = highestScore g"
    if "cin g = Txt ''hint'' # rest \<and> guessStep r w g rd = Inr (g', rd')"
    using that
    by (auto simp: guessStep_def useHint_def chargeHint_def Let_def
        split: if_splits sum.splits)
  from pts step loop hint show ?thesis by blast
qed

theorem correct_guess_points_witness:
  "inIntRange (int (length ''house'')) \<and> inIntRange (2 * 3) \<and> inIntRange (5 + 2 * 3) \<and>
   inIntRange (3 + 1) \<and> inIntRange (21 + (5 + 2 * 3)) \<and>
   fst (correctGuess ''house'' \<lparr>score = 21, highestScore = 30, streak = 3, maxStreak = 3,
        words = [''house''], wordCount = 1, achievements = initialAchievements,
        cin = [], randCalls = 6\<rparr>) = 11 \<and>
   streak (snd (correctGuess ''house'' \<lparr>score = 21, highestScore = 30, streak = 3, maxStreak = 3,
        words = [''house''], wordCount = 1, achievements = initialAchievements,
        cin = [], randCalls = 6\<rparr>)) = 4 \<and>
   guessLoop id ''house''
     \<lparr>score = 21, highestScore = 30, streak = 3, maxStreak = 3,
        words = [''house''], wordCount = 1, achievements = initialAchievements,
        cin = [Txt ''house''], randCalls = 6\<rparr>
     \<lparr>attemptsLeft = 3, hintsUsed = 0, wordGuessed = False\<rparr> =
   Inr (\<lparr>score = 32, highestScore = 32, streak = 4, maxStreak = 4,
        words = [''house''], wordCount = 1, achievements = initialAchievements,
        cin = [], randCalls = 6\<rparr>,
        \<lparr>attemptsLeft = 3, hintsUsed = 0, wordGuessed = True\<rparr>) \<and>
   guessStep id ''house''
     \<lparr>score = 21, highestScore = 30, streak = 3, maxStreak = 3,
        words = [''house''], wordCount = 1, achievements = initialAchievements,
        cin = [Txt ''hint'', Num 2], randCalls = 6\<rparr>
     \<lparr>attemptsLeft = 3, hintsUsed = 0, wordGuessed = False\<rparr> =
   Inr (\<lparr>score = 20, highestScore = 30, streak = 3, maxStreak = 3,
        words = [''house''], wordCount = 1, achievements = initialAchievements,
        cin = [], randCalls = 6\<rparr>,
        \<lparr>attemptsLeft = 3, hintsUsed = 1, wordGuessed = False\<rparr>)"
proof -
  have rg: "inIntRange (int (length ''house'')) \<and> inIntRange (2 * 3) \<and> inIntRange (5 + 2 * 3) \<and>
      inIntRange (3 + 1) \<and> inIntRange (21 + (5 + 2 * 3))"
    by (simp add: inIntRange_def intMin_def intMax_def)
  have hs: "guessStep id ''house''
     \<lparr>score = 21, highestScore = 30, streak = 3, maxStreak = 3,
        words = [''house''], wordCount = 1, achievements = initialAchievements,
        cin = [Txt ''hint'', Num 2], randCalls = 6\<rparr>
     \<lparr>attemptsLeft = 3, hintsUsed = 0, wordGuessed = False\<rparr> =
   Inr (\<lparr>score = 20, highestScore = 30, streak = 3, maxStreak = 3,
        words = [''house''], wordCount = 1, achievements = initialAchievements,
        cin = [], randCalls = 6\<rparr>,
        \<lparr>attemptsLeft = 3, hintsUsed = 1, wordGuessed = False\<rparr>)"
    by (simp add: guessStep_def useHint_def chargeHint_def maxHintsPerWord_def hintCost_def
        wrapInt_def intMin_def intMax_def cinFailed_def)
  let ?g = "\<lparr>score = 21, highestScore = 30, streak = 3, maxStreak = 3,
        words = [''house''], wordCount = 1, achievements = initialAchievements,
        cin = [], randCalls = 6\<rparr>"
  let ?gw = "\<lparr>score = 21, highestScore = 30, streak = 3, maxStreak = 3,
        words = [''house''], wordCount = 1, achievements = initialAchievements,
        cin = [Txt ''house''], randCalls = 6\<rparr>"
  let ?gh = "\<lparr>score = 21, highestScore = 30, streak = 3, maxStreak = 3,
        words = [''house''], wordCount = 1, achievements = initialAchievements,
        cin = [Txt ''hint'', Num 2], randCalls = 6\<rparr>"
  let ?rd = "\<lparr>attemptsLeft = 3, hintsUsed = 0, wordGuessed = False\<rparr>"
  have cg: "correctGuess ''house'' ?g =
      (11, \<lparr>score = 32, highestScore = 32, streak = 4, maxStreak = 4,
        words = [''house''], wordCount = 1, achievements = initialAchievements,
        cin = [], randCalls = 6\<rparr>)"
    by (simp add: correctGuess_def updateScore_def wrapInt_def Let_def)
  have rg': "inIntRange (int (length ''house'')) \<and> inIntRange (2 * streak ?g) \<and>
      inIntRange (int (length ''house'') + 2 * streak ?g) \<and> inIntRange (streak ?g + 1) \<and>
      inIntRange (score ?g + (int (length ''house'') + 2 * streak ?g))"
    by (simp add: inIntRange_def intMin_def intMax_def)
  from correct_guess_points [where w = "''house''" and g = ?g] rg'
  have p1: "fst (correctGuess ''house'' ?g) = int (length ''house'') + 2 * streak ?g"
    and p2: "streak (snd (correctGuess ''house'' ?g)) = streak ?g + 1"
    by blast+
  from p1 have q1: "fst (correctGuess ''house'' ?g) = 11" by simp
  from p2 have q2: "streak (snd (correctGuess ''house'' ?g)) = 4" by simp
  have pre: "cin ?gw = Txt ''house'' # [] \<and> ''house'' \<noteq> ''hint'' \<and> attemptsLeft ?rd > 0 \<and>
      \<not> wordGuessed ?rd"
    by simp
  from correct_guess_points [where w = "''house''" and r = id and rest = "[]" and g = ?gw
      and rd = ?rd] pre
  have "guessLoop id ''house'' ?gw ?rd =
      Inr (snd (correctGuess ''house'' (?gw\<lparr>cin := []\<rparr>)), ?rd\<lparr>wordGuessed := True\<rparr>)"
    by blast
  then have q3: "guessLoop id ''house'' ?gw ?rd =
      Inr (\<lparr>score = 32, highestScore = 32, streak = 4, maxStreak = 4,
        words = [''house''], wordCount = 1, achievements = initialAchievements,
        cin = [], randCalls = 6\<rparr>, \<lparr>attemptsLeft = 3, hintsUsed = 0, wordGuessed = True\<rparr>)"
    using cg by simp
  from rg q1 q2 q3 hs show ?thesis by blast
qed

text \<open>
  Claim C5. \<open>handleGameOver\<close> sets the score to 0 whatever it was and changes nothing
  else. In \<open>playGame\<close>, when there are words, the filter finds words of the difficulty,
  and the guessing loop on the chosen word ends without the word guessed, then no attempt
  is left and the round ends in the state the loop reached with the score set to 0.
\<close>

theorem game_over_resets_score:
  "score (handleGameOver g w) = 0 \<and>
   handleGameOver g w = g\<lparr>score := 0\<rparr> \<and>
   (wordCount g \<noteq> 0 \<and>
    filterWordsByDifficulty (replicate maxWords []) (words g) (wordCount g) d = Inr (fw, fc) \<and>
    fc \<noteq> 0 \<and> w = fw ! (r (randCalls g) mod fc) \<and>
    guessLoop r w (g\<lparr>randCalls := snd (scrambleWord r w (randCalls g + 1))\<rparr>)
      \<lparr>attemptsLeft = 3, hintsUsed = 0, wordGuessed = False\<rparr> = Inr (g', rd') \<and>
    \<not> wordGuessed rd' \<longrightarrow>
      attemptsLeft rd' \<le> 0 \<and> playGame r d g = Inr (g'\<lparr>score := 0\<rparr>) \<and>
      (\<forall>g''. playGame r d g = Inr g'' \<longrightarrow> score g'' = 0))"
proof -
  have a: "score (handleGameOver g w) = 0 \<and> handleGameOver g w = g\<lparr>score := 0\<rparr>"
    by (simp add: handleGameOver_def)
  have b: "attemptsLeft rd' \<le> 0 \<and> playGame r d g = Inr (g'\<lparr>score := 0\<rparr>) \<and>
      (\<forall>g''. playGame r d g = Inr g'' \<longrightarrow> score g'' = 0)"
    if h: "wordCount g \<noteq> 0 \<and>
      filterWordsByDifficulty (replicate maxWords []) (words g) (wordCount g) d = Inr (fw, fc) \<and>
      fc \<noteq> 0 \<and> w = fw ! (r (randCalls g) mod fc) \<and>
      guessLoop r w (g\<lparr>randCalls := snd (scrambleWord r w (randCalls g + 1))\<rparr>)
        \<lparr>attemptsLeft = 3, hintsUsed = 0, wordGuessed = False\<rparr> = Inr (g', rd') \<and>
      \<not> wordGuessed rd'"
  proof -
    from h have lp: "guessLoop r w (g\<lparr>randCalls := snd (scrambleWord r w (randCalls g + 1))\<rparr>)
        \<lparr>attemptsLeft = 3, hintsUsed = 0, wordGuessed = False\<rparr> = Inr (g', rd')"
      and ng: "\<not> wordGuessed rd'"
      by blast+
    from guessLoop_exit [OF lp] ng have ex: "attemptsLeft rd' \<le> 0" by simp
    from h have wc: "wordCount g \<noteq> 0"
      and fl: "filterWordsByDifficulty (replicate maxWords []) (words g) (wordCount g) d = Inr (fw, fc)"
      and fc: "fc \<noteq> 0" and w: "fw ! (r (randCalls g) mod fc) = w"
      by blast+
    have pg: "playGame r d g = Inr (g'\<lparr>score := 0\<rparr>)"
      using wc fc ng lp
      by (simp add: playGame_def fl w Let_def case_prod_beta finishRound_def handleGameOver_def)
    from ex pg show ?thesis by simp
  qed
  from a b show ?thesis by blast
qed

theorem game_over_resets_score_witness:
  "wordCount \<lparr>score = 0, highestScore = 7, streak = 2, maxStreak = 2,
      words = [''cat''], wordCount = 1, achievements = initialAchievements,
      cin = [Txt ''hint'', Num 1, Txt ''hint'', Num 2, Txt ''act'', Txt ''tac'', Txt ''dog''],
      randCalls = 0\<rparr> \<noteq> 0 \<and>
   filterWordsByDifficulty (replicate maxWords []) [''cat''] 1 1 =
     Inr ((replicate maxWords [])[0 := ''cat''], 1) \<and>
   (replicate maxWords [])[0 := ''cat''] ! (id 0 mod 1) = ''cat'' \<and>
   guessLoop id ''cat''
     \<lparr>score = 0, highestScore = 7, streak = 2, maxStreak = 2,
      words = [''cat''], wordCount = 1, achievements = initialAchievements,
      cin = [Txt ''hint'', Num 1, Txt ''hint'', Num 2, Txt ''act'', Txt ''tac'', Txt ''dog''],
      randCalls = 4\<rparr>
     \<lparr>attemptsLeft = 3, hintsUsed = 0, wordGuessed = False\<rparr> =
   Inr (\<lparr>score = - 2, highestScore = 7, streak = 0, maxStreak = 2,
      words = [''cat''], wordCount = 1, achievements = initialAchievements,
      cin = [], randCalls = 4\<rparr>,
      \<lparr>attemptsLeft = 0, hintsUsed = 2, wordGuessed = False\<rparr>) \<and>
   playGame id 1
     \<lparr>score = 0, highestScore = 7, streak = 2, maxStreak = 2,
      words = [''cat''], wordCount = 1, achievements = initialAchievements,
      cin = [Txt ''hint'', Num 1, Txt ''hint'', Num 2, Txt ''act'', Txt ''tac'', Txt ''dog''],
      randCalls = 0\<rparr> =
   Inr \<lparr>score = 0, highestScore = 7, streak = 0, maxStreak = 2,
      words = [''cat''], wordCount = 1, achievements = initialAchievements,
      cin = [], randCalls = 4\<rparr>"
proof -
  let ?g = "\<lparr>score = 0, highestScore = 7, streak = 2, maxStreak = 2,
      words = [''cat''], wordCount = 1, achievements = initialAchievements,
      cin = [Txt ''hint'', Num 1, Txt ''hint'', Num 2, Txt ''act'', Txt ''tac'', Txt ''dog''],
      randCalls = 0\<rparr>"
  let ?g' = "\<lparr>score = - 2, highestScore = 7, streak = 0, maxStreak = 2,
      words = [''cat''], wordCount = 1, achievements = initialAchievements,
      cin = [], randCalls = 4\<rparr>"
  let ?rd' = "\<lparr>attemptsLeft = 0, hintsUsed = 2, wordGuessed = False\<rparr>"
  let ?fw = "(replicate maxWords [])[0 := ''cat'']"
  have wc: "wordCount ?g \<noteq> 0" by simp
  have fl: "filterWordsByDifficulty (replicate maxWords []) (words ?g) (wordCount ?g) 1 = Inr (?fw, 1)"
    by code_simp
  have w: "''cat'' = ?fw ! (id (randCalls ?g) mod 1)"
    by (simp add: maxWords_def)
  have sc: "snd (scrambleWord id ''cat'' (randCalls ?g + 1)) = 4"
    by code_simp
  have lp: "guessLoop id ''cat'' (?g\<lparr>randCalls := 4\<rparr>)
      \<lparr>attemptsLeft = 3, hintsUsed = 0, wordGuessed = False\<rparr> = Inr (?g', ?rd')"
    by code_simp
  have hyp: "wordCount ?g \<noteq> 0 \<and>
      filterWordsByDifficulty (replicate maxWords []) (words ?g) (wordCount ?g) 1 = Inr (?fw, 1) \<and>
      (1::nat) \<noteq> 0 \<and> ''cat'' = ?fw ! (id (randCalls ?g) mod 1) \<and>
      guessLoop id ''cat'' (?g\<lparr>randCalls := snd (scrambleWord id ''cat'' (randCalls ?g + 1))\<rparr>)
        \<lparr>attemptsLeft = 3, hintsUsed = 0, wordGuessed = False\<rparr> = Inr (?g', ?rd') \<and>
      \<not> wordGuessed ?rd'"
    using wc fl w lp unfolding sc by simp
  from game_over_resets_score [where g = ?g and w = "''cat''" and d = 1 and fw = ?fw and fc = 1
      and r = id and g' = ?g' and rd' = ?rd'] hyp
  have pg: "playGame id 1 ?g = Inr (?g'\<lparr>score := 0\<rparr>)"
    by blast
  from wc fl w lp pg show ?thesis by simp
qed

text \<open>
  Claim C7. An incorrect guess takes one attempt away and sets the streak to 0, whatever
  it was; the score and the highest score stay as they are. The guessing loop takes this
  branch when the line typed is neither the request for a hint nor the word, and goes on
  from the state so changed.
\<close>

theorem incorrect_guess_effect:
  "attemptsLeft (snd (incorrectGuess g rd)) = attemptsLeft rd - 1 \<and>
   streak (fst (incorrectGuess g rd)) = 0 \<and>
   score (fst (incorrectGuess g rd)) = score g \<and>
   highestScore (fst (incorrectGuess g rd)) = highestScore g \<and>
   (cin g = Txt guess # rest \<and> guess \<noteq> ''hint'' \<and> guess \<noteq> w \<longrightarrow>
      guessStep r w g rd = Inr (incorrectGuess (g\<lparr>cin := rest\<rparr>) rd)) \<and>
   (cin g = Txt guess # rest \<and> guess \<noteq> ''hint'' \<and> guess \<noteq> w \<and>
    attemptsLeft rd > 0 \<and> \<not> wordGuessed rd \<longrightarrow>
      guessLoop r w g rd =
        guessLoop r w (fst (incorrectGuess (g\<lparr>cin := rest\<rparr>) rd))
          (snd (incorrectGuess (g\<lparr>cin := rest\<rparr>) rd)))"
proof -
  have eff: "attemptsLeft (snd (incorrectGuess g rd)) = attemptsLeft rd - 1 \<and>
   streak (fst (incorrectGuess g rd)) = 0 \<and>
   score (fst (incorrectGuess g rd)) = score g \<and>
   highestScore (fst (incorrectGuess g rd)) = highestScore g"
    by (simp add: incorrectGuess_def)
  have step: "guessStep r w g rd = Inr (incorrectGuess (g\<lparr>cin := rest\<rparr>) rd)"
    if "cin g = Txt guess # rest \<and> guess \<noteq> ''hint'' \<and> guess \<noteq> w"
    using that by (simp add: guessStep_def Let_def)
  have loop: "guessLoop r w g rd =
        guessLoop r w (fst (incorrectGuess (g\<lparr>cin := rest\<rparr>) rd))
          (snd (incorrectGuess (g\<lparr>cin := rest\<rparr>) rd))"
    if a: "cin g = Txt guess # rest \<and> guess \<noteq> ''hint'' \<and> guess \<noteq> w \<and>
        attemptsLeft rd > 0 \<and> \<not> wordGuessed rd"
    using a by (simp add: guessLoop.simps [of r w g rd] step split: prod.splits)
  from eff step loop show ?thesis by blast
qed

theorem incorrect_guess_effect_witness:
  "guessStep id ''cat''
     \<lparr>score = 12, highestScore = 12, streak = 2, maxStreak = 2,
      words = [''cat''], wordCount = 1, achievements = initialAchievements,
      cin = [Txt ''act'', Txt ''cat''], randCalls = 4\<rparr>
     \<lparr>attemptsLeft = 3, hintsUsed = 0, wordGuessed = False\<rparr> =
   Inr (\<lparr>score = 12, highestScore = 12, streak = 0, maxStreak = 2,
      words = [''cat''], wordCount = 1, achievements = initialAchievements,
      cin = [Txt ''cat''], randCalls = 4\<rparr>,
      \<lparr>attemptsLeft = 2, hintsUsed = 0, wordGuessed = False\<rparr>)"
  using incorrect_guess_effect [where w = "''cat''" and r = id and guess = "''act''" and
      rest = "[Txt ''cat'']" and
      g = "\<lparr>score = 12, highestScore = 12, streak = 2, maxStreak = 2,
      words = [''cat''], wordCount = 1, achievements = initialAchievements,
      cin = [Txt ''act'', Txt ''cat''], randCalls = 4\<rparr>" and
      rd = "\<lparr>attemptsLeft = 3, hintsUsed = 0, wordGuessed = False\<rparr>"]
  by (simp add: incorrectGuess_def)

section \<open>Hints\<close>

text \<open>What holds of \<open>useHint\<close>, case by case.\<close>

lemma useHint_limit:
  "used \<ge> 2 \<Longrightarrow> useHint r w used g = Inr (AllHintsUsed, used, g)"
  by (simp add: useHint_def maxHintsPerWord_def)

lemma useHint_other_number:
  "used < 2 \<Longrightarrow> cin g = Num c # rest \<Longrightarrow> inIntRange c \<Longrightarrow> c \<noteq> 1 \<Longrightarrow> c \<noteq> 2 \<Longrightarrow> c \<noteq> 3 \<Longrightarrow>
   useHint r w used g = Inr (InvalidHintChoice, used, g\<lparr>cin := rest\<rparr>)"
  by (simp add: useHint_def maxHintsPerWord_def inIntRange_def)

lemma useHint_not_a_number:
  "used < 2 \<Longrightarrow> cin g = Txt s # rest \<Longrightarrow>
   useHint r w used g = Inr (InvalidHintChoice, used, g\<lparr>cin := Failbit # rest\<rparr>)"
  by (simp add: useHint_def maxHintsPerWord_def)

lemma useHint_shown:
  "useHint r w used g = Inr (shown, used', g') \<Longrightarrow>
   shown \<noteq> AllHintsUsed \<Longrightarrow> shown \<noteq> InvalidHintChoice \<Longrightarrow>
   used < 2 \<and> used' = used + 1 \<and> score g' = wrapInt (score g - 1)"
  by (auto simp: useHint_def chargeHint_def maxHintsPerWord_def hintCost_def Let_def
      split: sum.splits if_splits)

text \<open>
  Claim C6, at a failing input. In a round on the word \<open>cat\<close> the user asks for a hint
  and answers the hint menu with \<open>x\<close>. \<open>useHint\<close> reports an invalid choice and leaves the
  hint count and the score as they are, but it leaves \<open>cin\<close> failed: the round never ends,
  and the guess \<open>cat\<close> typed next is never read. The same happens for the answer
  4294967297, a number outside the range of \<open>int\<close>. The menu of \<open>main\<close> clears the stream
  after such a line; \<open>useHint\<close> does not.
\<close>

theorem useHint_invalid_choice_hangs:
  "useHint id ''cat'' 0
     \<lparr>score = 0, highestScore = 0, streak = 0, maxStreak = 0,
      words = [''cat''], wordCount = 1, achievements = initialAchievements,
      cin = [Txt ''x'', Txt ''cat''], randCalls = 4\<rparr> =
   Inr (InvalidHintChoice, 0,
     \<lparr>score = 0, highestScore = 0, streak = 0, maxStreak = 0,
      words = [''cat''], wordCount = 1, achievements = initialAchievements,
      cin = [Failbit, Txt ''cat''], randCalls = 4\<rparr>) \<and>
   playGame id 1
     \<lparr>score = 0, highestScore = 0, streak = 0, maxStreak = 0,
      words = [''cat''], wordCount = 1, achievements = initialAchievements,
      cin = [Txt ''hint'', Txt ''x'', Txt ''cat''], randCalls = 0\<rparr> = Inl RoundNeverEnds \<and>
   playGame id 1
     \<lparr>score = 0, highestScore = 0, streak = 0, maxStreak = 0,
      words = [''cat''], wordCount = 1, achievements = initialAchievements,
      cin = [Txt ''hint'', Num 4294967297, Txt ''cat''], randCalls = 0\<rparr> = Inl RoundNeverEnds \<and>
   main id (Some [''cat'']) None [Num 1, Num 1, Txt ''hint'', Txt ''x'', Txt ''cat'', Num 3] =
     Inl RoundNeverEnds"
proof -
  have a: "useHint id ''cat'' 0
     \<lparr>score = 0, highestScore = 0, streak = 0, maxStreak = 0,
      words = [''cat''], wordCount = 1, achievements = initialAchievements,
      cin = [Txt ''x'', Txt ''cat''], randCalls = 4\<rparr> =
   Inr (InvalidHintChoice, 0,
     \<lparr>score = 0, highestScore = 0, streak = 0, maxStreak = 0,
      words = [''cat''], wordCount = 1, achievements = initialAchievements,
      cin = [Failbit, Txt ''cat''], randCalls = 4\<rparr>)"
    by (simp add: useHint_def maxHintsPerWord_def)
  have b: "playGame id 1
     \<lparr>score = 0, highestScore = 0, streak = 0, maxStreak = 0,
      words = [''cat''], wordCount = 1, achievements = initialAchievements,
      cin = [Txt ''hint'', Txt ''x'', Txt ''cat''], randCalls = 0\<rparr> = Inl RoundNeverEnds"
    by code_simp
  have c: "playGame id 1
     \<lparr>score = 0, highestScore = 0, streak = 0, maxStreak = 0,
      words = [''cat''], wordCount = 1, achievements = initialAchievements,
      cin = [Txt ''hint'', Num 4294967297, Txt ''cat''], randCalls = 0\<rparr> = Inl RoundNeverEnds"
    by code_simp
  have d: "main id (Some [''cat'']) None [Num 1, Num 1, Txt ''hint'', Txt ''x'', Txt ''cat'', Num 3] =
     Inl RoundNeverEnds"
    by code_simp
  from a b c d show ?thesis by blast
qed

section \<open>Achievements in a session\<close>

text \<open>
  One evaluation of the four conditions, flag by flag: a flag is set when its condition
  holds and stays set otherwise.
\<close>

lemma updateAchievements_flags:
  assumes "length as = numAchievements"
  shows "map achieved (updateAchievements won sc h t as) =
           [won \<or> achieved (as ! 0),
            won \<and> h = 0 \<or> achieved (as ! 1),
            sc \<ge> 50 \<or> achieved (as ! 2),
            won \<and> t \<le> 30 \<or> achieved (as ! 3)]"
proof -
  from assms obtain a b c d where as: "as = [a, b, c, d]"
    by (auto simp: numAchievements_def length_Suc_conv numeral_eq_Suc)
  show ?thesis
    unfolding as by (auto simp: updateAchievements_def setAchieved_def Let_def)
qed

lemma updateAchievements_length [simp]:
  "length (updateAchievements won sc h t as) = length as"
  by (simp add: updateAchievements_def setAchieved_def Let_def)

text \<open>
  Nothing but \<open>playGame()\<close> touches the achievements: a hint, a step of the guessing
  loop, the loop, a round, the shop and the choice of a difficulty leave them as they are.
\<close>

lemma useHint_achievements:
  "useHint r w used g = Inr (shown, used', g') \<Longrightarrow> achievements g' = achievements g"
  by (auto simp: useHint_def chargeHint_def Let_def split: if_splits sum.splits)

lemma guessStep_achievements:
  "guessStep r w g rd = Inr (g', rd') \<Longrightarrow> achievements g' = achievements g"
  by (auto simp: guessStep_def correctGuess_def incorrectGuess_def updateScore_def Let_def
      split: if_splits list.splits input.splits sum.splits dest!: useHint_achievements)

lemma guessLoop_achievements:
  "guessLoop r w g rd = Inr (g', rd') \<Longrightarrow> achievements g' = achievements g"
proof (induction r w g rd rule: guessLoop.induct)
  case (1 r w g rd)
  show ?case
  proof (cases "attemptsLeft rd > 0 \<and> \<not> wordGuessed rd")
    case False
    with "1.prems" show ?thesis by (simp add: guessLoop.simps [of r w g rd])
  next
    case True
    with "1.prems" obtain g1 rd1 where
      st: "guessStep r w g rd = Inr (g1, rd1)" and lp: "guessLoop r w g1 rd1 = Inr (g', rd')"
      by (auto simp: guessLoop.simps [of r w g rd] split: sum.splits)
    from "1.IH" [OF True st refl lp] guessStep_achievements [OF st] show ?thesis by simp
  qed
qed

lemma playGame_achievements:
  "playGame r d g = Inr g' \<Longrightarrow> achievements g' = achievements g"
  by (auto simp: playGame_def Let_def finishRound_def handleGameOver_def
      split: if_splits sum.splits prod.splits dest!: guessLoop_achievements)

lemma displayShop_achievements:
  "displayShop d2 g = Inr g' \<Longrightarrow> achievements g' = achievements g"
  by (auto simp: displayShop_def Let_def split: if_splits sum.splits)

lemma getDifficultyChoice_achievements:
  "getDifficultyChoice g = Inr (d, g') \<Longrightarrow> achievements g' = achievements g"
  by (auto simp: getDifficultyChoice_def split: sum.splits)

text \<open>
  \<open>playGame()\<close> evaluates the conditions with a score of 10, so it leaves the third
  flag as it is, and so does every session from any state.
\<close>

lemma playGame0_highScorer:
  "achieved (playGame0 as ! 2) = achieved (as ! 2)"
  by (simp add: playGame0_def updateAchievements_def setAchieved_def Let_def)

lemma mainLoop_highScorer:
  "mainLoop r d2 g = Inr g' \<Longrightarrow> achieved (achievements g' ! 2) = achieved (achievements g ! 2)"
proof (induction r d2 g rule: mainLoop.induct)
  case (1 r d2 g)
  let ?g1 = "g\<lparr>achievements := playGame0 (achievements g)\<rparr>"
  from "1.prems" obtain opt rest where ro: "readOption (cin ?g1) = Inr (opt, rest)"
    by (auto simp: mainLoop.simps [of r d2 g] Let_def split: sum.splits)
  let ?g2 = "?g1\<lparr>cin := rest\<rparr>"
  have a2: "achieved (achievements ?g2 ! 2) = achieved (achievements g ! 2)"
    by (simp add: playGame0_highScorer)
  consider (play) "opt = 1" | (shop) "opt \<noteq> 1" "opt = 2" | (exit) "opt \<noteq> 1" "opt \<noteq> 2" "opt = 3"
    | (other) "opt \<noteq> 1" "opt \<noteq> 2" "opt \<noteq> 3"
    by blast
  then show ?case
  proof cases
    case play
    with "1.prems" ro obtain d g3 g4 where
      gd: "getDifficultyChoice ?g2 = Inr (d, g3)" and pg: "playGame r d g3 = Inr g4"
      and ml: "mainLoop r d2 g4 = Inr g'"
      by (auto simp: mainLoop.simps [of r d2 g] Let_def split: sum.splits)
    from "1.IH"(1) [OF refl ro refl refl play gd refl pg ml]
    have "achieved (achievements g' ! 2) = achieved (achievements g4 ! 2)" .
    with playGame_achievements [OF pg] getDifficultyChoice_achievements [OF gd] a2
    show ?thesis by simp
  next
    case shop
    with "1.prems" ro obtain g3 where
      ds: "displayShop d2 ?g2 = Inr g3" and ml: "mainLoop r d2 g3 = Inr g'"
      by (auto simp: mainLoop.simps [of r d2 g] Let_def split: sum.splits)
    from "1.IH"(2) [OF refl ro refl refl shop ds ml]
    have "achieved (achievements g' ! 2) = achieved (achievements g3 ! 2)" .
    with displayShop_achievements [OF ds] a2 show ?thesis by simp
  next
    case exit
    with "1.prems" ro have "g' = ?g2"
      by (auto simp: mainLoop.simps [of r d2 g] Let_def split: sum.splits)
    with a2 show ?thesis by simp
  next
    case other
    with "1.prems" ro have ml: "mainLoop r d2 ?g2 = Inr g'"
      by (auto simp: mainLoop.simps [of r d2 g] Let_def split: sum.splits)
    from "1.IH"(3) [OF refl ro refl refl other ml] a2
    show ?thesis by simp
  qed
qed

text \<open>
  In every session that ends, the High Scorer flag is not set at the end, whatever score
  the session reached.
\<close>

lemma main_highScorer:
  "main r dictionary extra typed = Inr g \<Longrightarrow> \<not> achieved (achievements g ! 2)"
proof -
  assume m: "main r dictionary extra typed = Inr g"
  then obtain g0 where ml: "mainLoop r extra g0 = Inr g"
    and g0: "achievements g0 = initialAchievements"
    by (auto simp: main_def split: sum.splits)
  from mainLoop_highScorer [OF ml] g0
  show "\<not> achieved (achievements g ! 2)"
    by (simp add: initialAchievements_def Achievement_def)
qed

text \<open>
  \<open>playGame()\<close> reports a won round each time, so in every session that ends the First
  Win flag is set at the end, whether a round was won or not.
\<close>

lemma playGame0_firstWin:
  "length as = numAchievements \<Longrightarrow>
   achieved (playGame0 as ! 0) \<and> length (playGame0 as) = numAchievements"
proof -
  assume len: "length as = numAchievements"
  then have "0 < length (playGame0 as)"
    by (simp add: playGame0_def numAchievements_def)
  then have "achieved (playGame0 as ! 0) = map achieved (playGame0 as) ! 0"
    by (simp only: nth_map)
  also have "\<dots> = True"
    by (simp add: playGame0_def updateAchievements_flags [OF len])
  finally show ?thesis using len by (simp add: playGame0_def)
qed

lemma mainLoop_firstWin:
  "mainLoop r d2 g = Inr g' \<Longrightarrow> length (achievements g) = numAchievements \<Longrightarrow>
   achieved (achievements g' ! 0)"
proof (induction r d2 g rule: mainLoop.induct)
  case (1 r d2 g)
  let ?g1 = "g\<lparr>achievements := playGame0 (achievements g)\<rparr>"
  from "1.prems" obtain opt rest where ro: "readOption (cin ?g1) = Inr (opt, rest)"
    by (auto simp: mainLoop.simps [of r d2 g] Let_def split: sum.splits)
  let ?g2 = "?g1\<lparr>cin := rest\<rparr>"
  from playGame0_firstWin [OF "1.prems"(2)]
  have a2: "achieved (achievements ?g2 ! 0)" and l2: "length (achievements ?g2) = numAchievements"
    by simp_all
  consider (play) "opt = 1" | (shop) "opt \<noteq> 1" "opt = 2" | (exit) "opt \<noteq> 1" "opt \<noteq> 2" "opt = 3"
    | (other) "opt \<noteq> 1" "opt \<noteq> 2" "opt \<noteq> 3"
    by blast
  then show ?case
  proof cases
    case play
    with "1.prems" ro obtain d g3 g4 where
      gd: "getDifficultyChoice ?g2 = Inr (d, g3)" and pg: "playGame r d g3 = Inr g4"
      and ml: "mainLoop r d2 g4 = Inr g'"
      by (auto simp: mainLoop.simps [of r d2 g] Let_def split: sum.splits)
    from playGame_achievements [OF pg] getDifficultyChoice_achievements [OF gd] l2
    have "length (achievements g4) = numAchievements" by simp
    from "1.IH"(1) [OF refl ro refl refl play gd refl pg ml this] show ?thesis .
  next
    case shop
    with "1.prems" ro obtain g3 where
      ds: "displayShop d2 ?g2 = Inr g3" and ml: "mainLoop r d2 g3 = Inr g'"
      by (auto simp: mainLoop.simps [of r d2 g] Let_def split: sum.splits)
    from displayShop_achievements [OF ds] l2
    have "length (achievements g3) = numAchievements" by simp
    from "1.IH"(2) [OF refl ro refl refl shop ds ml this] show ?thesis .
  next
    case exit
    with "1.prems" ro have "g' = ?g2"
      by (auto simp: mainLoop.simps [of r d2 g] Let_def split: sum.splits)
    with a2 show ?thesis by simp
  next
    case other
    with "1.prems" ro have ml: "mainLoop r d2 ?g2 = Inr g'"
      by (auto simp: mainLoop.simps [of r d2 g] Let_def split: sum.splits)
    from "1.IH"(3) [OF refl ro refl refl other ml l2] show ?thesis .
  qed
qed

lemma main_firstWin:
  "main r dictionary extra typed = Inr g \<Longrightarrow> achieved (achievements g ! 0)"
proof -
  assume m: "main r dictionary extra typed = Inr g"
  then obtain g0 where ml: "mainLoop r extra g0 = Inr g"
    and g0: "achievements g0 = initialAchievements"
    by (auto simp: main_def split: sum.splits)
  from g0 have "length (achievements g0) = numAchievements"
    by (simp add: initialAchievements_def numAchievements_def)
  from mainLoop_firstWin [OF ml this] show ?thesis .
qed

text \<open>
  Claim C1, at two failing inputs. With the dictionary \<open>cat\<close>, in the session where the
  user leaves at the first menu no round is played, and the First Win flag is set at the
  end; in the session where the user plays one Easy round and loses it with three wrong
  guesses, the maximal streak is 0 at the end, so no round was won, and the flag is set.
\<close>

theorem firstWin_without_a_win:
  "map_sum id (map achieved \<circ> achievements) (main id (Some [''cat'']) None [Num 3]) =
     Inr [True, True, False, True] \<and>
   map_sum id maxStreak
     (main id (Some [''cat'']) None [Num 1, Num 1, Txt ''act'', Txt ''tac'', Txt ''dog'', Num 3]) =
     Inr 0 \<and>
   map_sum id (map achieved \<circ> achievements)
     (main id (Some [''cat'']) None [Num 1, Num 1, Txt ''act'', Txt ''tac'', Txt ''dog'', Num 3]) =
     Inr [True, True, False, True]"
proof -
  have a: "map_sum id (map achieved \<circ> achievements) (main id (Some [''cat'']) None [Num 3]) =
     Inr [True, True, False, True]"
    by code_simp
  have b: "map_sum id maxStreak
     (main id (Some [''cat'']) None [Num 1, Num 1, Txt ''act'', Txt ''tac'', Txt ''dog'', Num 3]) =
     Inr 0"
    by code_simp
  have c: "map_sum id (map achieved \<circ> achievements)
     (main id (Some [''cat'']) None [Num 1, Num 1, Txt ''act'', Txt ''tac'', Txt ''dog'', Num 3]) =
     Inr [True, True, False, True]"
    by code_simp
  from a b c show ?thesis by blast
qed


text \<open>
  Claim C2, at a failing input. With the dictionary \<open>internationalization\<close>, a session
  of three Hard rounds, each won at the first guess, ends with a score of 66 and the High
  Scorer flag not set.
\<close>

theorem highScorer_locked_at_66:
  "map_sum id score (main id (Some [''internationalization'']) None
     [Num 1, Num 3, Txt ''internationalization'', Num 1, Num 3, Txt ''internationalization'',
      Num 1, Num 3, Txt ''internationalization'', Num 3]) = Inr 66 \<and>
   map_sum id (map achieved \<circ> achievements) (main id (Some [''internationalization'']) None
     [Num 1, Num 3, Txt ''internationalization'', Num 1, Num 3, Txt ''internationalization'',
      Num 1, Num 3, Txt ''internationalization'', Num 3]) = Inr [True, True, False, True]"
proof -
  have a: "map_sum id score (main id (Some [''internationalization'']) None
     [Num 1, Num 3, Txt ''internationalization'', Num 1, Num 3, Txt ''internationalization'',
      Num 1, Num 3, Txt ''internationalization'', Num 3]) = Inr 66"
    by code_simp
  have b: "map_sum id (map achieved \<circ> achievements) (main id (Some [''internationalization'']) None
     [Num 1, Num 3, Txt ''internationalization'', Num 1, Num 3, Txt ''internationalization'',
      Num 1, Num 3, Txt ''internationalization'', Num 3]) = Inr [True, True, False, True]"
    by code_simp
  from a b show ?thesis by blast
qed

end
